theory Spec2Isabelle
  imports Main
begin

section \<open>The collaborators of the middleware\<close>

text \<open>
  Package \<open>otelmiddleware\<close> (file \<open>tracing.go\<close>) orchestrates calls into the Go HTTP
  library and into OpenTelemetry. Strings are Go strings, that is byte sequences, hence
  \<open>string\<close>. An attribute is a key with a value; a header is a list of keys with their
  values.
\<close>

datatype Value = BOOL bool | INT64 int | STRING string

type_synonym KeyValue = "string \<times> Value"

type_synonym Header = "(string \<times> string list) list"

text \<open>
  The fields of \<open>http.Request\<close> that the middleware or the semantic conventions read.
  The type parameter is \<open>context.Context\<close>.
\<close>

record 'ctx Request =
  Context :: 'ctx
  Header :: Header
  Host :: string
  RequestURI :: string
  Proto :: string
  ProtoMajor :: int
  Method :: string

text \<open>\<open>propagation.TextMapPropagator\<close>: \<open>Inject\<close> writes into the carrier, so it returns
  the carrier it leaves behind.\<close>

record 'ctx TextMapPropagator =
  Extract :: "'ctx \<Rightarrow> Header \<Rightarrow> 'ctx"
  Inject :: "'ctx \<Rightarrow> Header \<Rightarrow> Header"

datatype SpanKind =
  SpanKindUnspecified | SpanKindInternal | SpanKindServer | SpanKindClient
  | SpanKindProducer | SpanKindConsumer

datatype SpanStartOption =
  trace_WithAttributes "KeyValue list"
  | trace_WithSpanKind SpanKind

text \<open>
  \<open>trace.Span\<close> is an interface of which the middleware calls \<open>IsRecording\<close>,
  \<open>SetAttributes\<close> and \<open>End\<close>. The model is a span that keeps what it was started with
  (name, parent context, start options) and what was done to it since: the attributes set
  on it and the number of calls of \<open>End\<close>.
\<close>

record 'ctx Span =
  startName :: string
  spanParent :: 'ctx
  startOptions :: "SpanStartOption list"
  recording :: bool
  attributesSet :: "KeyValue list"
  endCalls :: nat

definition IsRecording :: "'ctx Span \<Rightarrow> bool" where
  "IsRecording span = recording span"

definition SetAttributes :: "KeyValue list \<Rightarrow> 'ctx Span \<Rightarrow> 'ctx Span" where
  "SetAttributes kv span = span\<lparr>attributesSet := attributesSet span @ kv\<rparr>"

definition End :: "'ctx Span \<Rightarrow> 'ctx Span" where
  "End span = span\<lparr>endCalls := Suc (endCalls span)\<rparr>"

text \<open>
  \<open>trace.Tracer\<close>: the tracer chooses the context that carries the new span and whether
  the span records (sampling); \<open>Start\<close> returns both.
\<close>

record 'ctx Tracer =
  contextWithSpan :: "'ctx \<Rightarrow> string \<Rightarrow> SpanStartOption list \<Rightarrow> 'ctx"
  samples :: "'ctx \<Rightarrow> string \<Rightarrow> SpanStartOption list \<Rightarrow> bool"

definition Start ::
  "'ctx Tracer \<Rightarrow> 'ctx \<Rightarrow> string \<Rightarrow> SpanStartOption list \<Rightarrow> 'ctx \<times> 'ctx Span" where
  "Start t ctx name opts =
     (contextWithSpan t ctx name opts,
      \<lparr>startName = name, spanParent = ctx, startOptions = opts,
       recording = samples t ctx name opts, attributesSet = [], endCalls = 0\<rparr>)"

text \<open>
  The process-wide state of package \<open>otel\<close>, read through \<open>otel.Tracer\<close> (a name and an
  instrumentation version) and \<open>otel.GetTextMapPropagator\<close>. It is read when the
  middleware is built and again while a request is served, so both take it as an argument.
\<close>

record 'ctx otel =
  otel_Tracer :: "string \<Rightarrow> string \<Rightarrow> 'ctx Tracer"
  otel_GetTextMapPropagator :: "'ctx TextMapPropagator"

text \<open>The functions of package \<open>semconv\<close> that the middleware calls, as parameters.\<close>

record 'ctx semconv =
  NetAttributesFromHTTPRequest :: "string \<Rightarrow> 'ctx Request \<Rightarrow> KeyValue list"
  EndUserAttributesFromHTTPRequest :: "'ctx Request \<Rightarrow> KeyValue list"
  HTTPServerAttributesFromHTTPRequest :: "string \<Rightarrow> string \<Rightarrow> 'ctx Request \<Rightarrow> KeyValue list"
  HTTPClientAttributesFromHTTPRequest :: "'ctx Request \<Rightarrow> KeyValue list"
  TelemetrySDKLanguageGo :: KeyValue
  HTTPAttributesFromHTTPStatusCode :: "int \<Rightarrow> KeyValue list"

text \<open>
  Modelled from the spec: \<open>NewWrapResponseWriter\<close> and \<open>Status\<close> belong to the package
  but not to \<open>tracing.go\<close>. The wrapper holds the writer it wraps, the protocol major
  version it was given and the captured status, which is 0 until something is written.
\<close>

record 'w WrapResponseWriter =
  wrapped :: 'w
  wrappedProtoMajor :: int
  captured :: int

definition NewWrapResponseWriter :: "'w \<Rightarrow> int \<Rightarrow> 'w WrapResponseWriter" where
  "NewWrapResponseWriter w protoMajor =
     \<lparr>wrapped = w, wrappedProtoMajor = protoMajor, captured = 0\<rparr>"

definition Status :: "'w WrapResponseWriter \<Rightarrow> int" where
  "Status w = captured w"

text \<open>
  A panic of the Go runtime or of the downstream handler. The downstream handler
  \<open>next\<close> gets the wrapped writer and the request; it reaches the span through the
  request's context, so the model hands it the span too. It leaves the writer and the
  span in some state and either returns or panics.
\<close>

datatype panic = NilDereference | SliceBoundsOutOfRange | PanicValue string

record ('ctx, 'w) served =
  raised :: "panic option"
  writerAfter :: "'w WrapResponseWriter"
  spanAfter :: "'ctx Span"

type_synonym ('ctx, 'w) Handler =
  "'w WrapResponseWriter \<Rightarrow> 'ctx Request \<Rightarrow> 'ctx Span \<Rightarrow> ('ctx, 'w) served"

section \<open>The configuration and its options\<close>

definition version :: string where
  "version = ''0.1.0''"

text \<open>\<open>traceConfig\<close>: the tracer and the propagator are interface values, \<open>nil\<close> is
  \<open>None\<close>.\<close>

record 'ctx traceConfig =
  serviceName :: string
  tracer :: "'ctx Tracer option"
  propagator :: "'ctx TextMapPropagator option"
  attributes :: "KeyValue list"

text \<open>\<open>TraceOption\<close> is a function type, whose \<open>nil\<close> is \<open>None\<close>.\<close>

type_synonym 'ctx TraceOption = "('ctx traceConfig \<Rightarrow> 'ctx traceConfig) option"

definition WithTracer :: "'ctx Tracer option \<Rightarrow> 'ctx TraceOption" where
  "WithTracer t = Some (\<lambda>c. c\<lparr>tracer := t\<rparr>)"

definition WithPropagator :: "'ctx TextMapPropagator option \<Rightarrow> 'ctx TraceOption" where
  "WithPropagator p = Some (\<lambda>c. c\<lparr>propagator := p\<rparr>)"

definition WithServiceName :: "string \<Rightarrow> 'ctx TraceOption" where
  "WithServiceName name = Some (\<lambda>c. c\<lparr>serviceName := name\<rparr>)"

definition WithAttributes :: "KeyValue list \<Rightarrow> 'ctx TraceOption" where
  "WithAttributes attrs = Some (\<lambda>c. c\<lparr>attributes := attrs\<rparr>)"

section \<open>The middleware\<close>

text \<open>\<open>extractRoute\<close>: the slice \<open>uri[1:]\<close> panics when \<open>uri\<close> is empty.\<close>

definition extractRoute :: "string \<Rightarrow> panic + string" where
  "extractRoute uri = (if length uri < 1 then Inl SliceBoundsOutOfRange else Inr (drop 1 uri))"

text \<open>The loop over the options of \<open>TraceWithOptions\<close>; calling a \<open>nil\<close> option panics.\<close>

fun applyOptions :: "'ctx TraceOption list \<Rightarrow> 'ctx traceConfig \<Rightarrow> panic + 'ctx traceConfig" where
  "applyOptions [] config = Inr config"
| "applyOptions (None # opt) config = Inl NilDereference"
| "applyOptions (Some f # opt) config = applyOptions opt (f config)"

text \<open>\<open>&traceConfig{}\<close>: every field has its zero value.\<close>

definition emptyConfig :: "'ctx traceConfig" where
  "emptyConfig = \<lparr>serviceName = [], tracer = None, propagator = None, attributes = []\<rparr>"

text \<open>The defaults that \<open>TraceWithOptions\<close> fills in after the loop, in its order.\<close>

definition withDefaults :: "'ctx otel \<Rightarrow> 'ctx traceConfig \<Rightarrow> 'ctx traceConfig" where
  "withDefaults g config =
     (let config = (if tracer config = None
                    then config\<lparr>tracer :=
                      Some (otel_Tracer g ''github.com/vincentfree/opentelemetry/otelmiddleware''
                              version)\<rparr>
                    else config);
          config = (if propagator config = None
                    then config\<lparr>propagator := Some (otel_GetTextMapPropagator g)\<rparr>
                    else config);
          config = (if serviceName config = []
                    then config\<lparr>serviceName := ''TracedApplication''\<rparr>
                    else config)
      in config)"

text \<open>The first part of \<open>TraceWithOptions\<close>: the configuration that the returned
  closures share.\<close>

definition newConfig :: "'ctx otel \<Rightarrow> 'ctx TraceOption list \<Rightarrow> panic + 'ctx traceConfig" where
  "newConfig g opt =
     (case applyOptions opt emptyConfig of
        Inl p \<Rightarrow> Inl p
      | Inr config \<Rightarrow> Inr (withDefaults g config))"

text \<open>
  What serving one request leaves behind: the panic that leaves the handler, if any; the
  span as \<open>Start\<close> returned it; the request that was handed to \<open>next\<close>; the wrapped
  writer after \<open>next\<close>; the span in the state in which the handler leaves it.
\<close>

record ('ctx, 'w) outcome =
  panicked :: "panic option"
  started :: "'ctx Span option"
  forwarded :: "'ctx Request option"
  response :: "'w WrapResponseWriter option"
  finished :: "'ctx Span option"

definition aborted :: "panic \<Rightarrow> ('ctx, 'w) outcome" where
  "aborted p =
     \<lparr>panicked = Some p, started = None, forwarded = None, response = None, finished = None\<rparr>"

text \<open>
  The handler \<open>fn\<close> of \<open>TraceWithOptions\<close>, in the order of its statements. Three of
  its blocks are definitions of their own: the start options of the span (the literal
  \<open>opts\<close> and the \<open>append\<close> of the configured attributes), the span name (from
  \<open>spanName := extractRoute(r.RequestURI)\<close> to the last assignment of \<open>spanName\<close>),
  and what happens to the span once \<open>next.ServeHTTP\<close> is over.
\<close>

definition startOpts ::
  "'ctx semconv \<Rightarrow> 'ctx traceConfig \<Rightarrow> 'ctx Request \<Rightarrow> string \<Rightarrow> SpanStartOption list" where
  "startOpts sc config r route =
     (let opts = [trace_WithAttributes (NetAttributesFromHTTPRequest sc ''tcp'' r),
                  trace_WithAttributes (EndUserAttributesFromHTTPRequest sc r),
                  trace_WithAttributes (HTTPServerAttributesFromHTTPRequest sc (Host r) route r),
                  trace_WithAttributes (HTTPClientAttributesFromHTTPRequest sc r),
                  trace_WithAttributes [TelemetrySDKLanguageGo sc],
                  trace_WithSpanKind SpanKindServer];
          opts = (if length (attributes config) > 0
                  then opts @ [trace_WithAttributes (attributes config)] else opts)
      in opts)"

definition nameSpan :: "'ctx Request \<Rightarrow> string \<Rightarrow> string" where
  "nameSpan r route =
     (let spanName = route;
          spanName = (if spanName = [] then Proto r @ '' '' @ Method r @ '' /'' else spanName);
          spanName = Method r @ '' /'' @ spanName
      in spanName)"

text \<open>
  \<open>defer span.End()\<close> runs when \<open>fn\<close> returns and when \<open>next\<close> panics; a panic of
  \<open>next\<close> skips the statements after the call.
\<close>

definition leave :: "'ctx semconv \<Rightarrow> ('ctx, 'w) served \<Rightarrow> 'ctx Span" where
  "leave sc s =
     (case raised s of
        Some e \<Rightarrow> End (spanAfter s)
      | None \<Rightarrow>
          (let span = (if IsRecording (spanAfter s)
                       then SetAttributes
                              (HTTPAttributesFromHTTPStatusCode sc (Status (writerAfter s)))
                              (spanAfter s)
                       else spanAfter s)
           in End span))"

text \<open>A method call on a \<open>nil\<close> interface panics.\<close>

definition fn ::
  "'ctx semconv \<Rightarrow> 'ctx traceConfig \<Rightarrow> ('ctx, 'w) Handler \<Rightarrow> 'ctx otel \<Rightarrow> 'w \<Rightarrow> 'ctx Request
     \<Rightarrow> ('ctx, 'w) outcome" where
  "fn sc config next g w r =
     (let requestCtx = Context r in
      case propagator config of
        None \<Rightarrow> aborted NilDereference
      | Some p \<Rightarrow>
     (let ctx = Extract p requestCtx (Header r) in
      case extractRoute (RequestURI r) of
        Inl e \<Rightarrow> aborted e
      | Inr route \<Rightarrow>
     (let opts = startOpts sc config r route in
      case extractRoute (RequestURI r) of
        Inl e \<Rightarrow> aborted e
      | Inr route \<Rightarrow>
     (let spanName = nameSpan r route in
      case tracer config of
        None \<Rightarrow> aborted NilDereference
      | Some t \<Rightarrow>
     (let (ctx, span) = Start t ctx spanName opts;
          r = r\<lparr>Context := ctx\<rparr>;
          carrier = Header r;
          r = r\<lparr>Header := Inject (otel_GetTextMapPropagator g) ctx carrier\<rparr>;
          wrapperRes = NewWrapResponseWriter w (ProtoMajor r);
          s = next wrapperRes r span
      in \<lparr>panicked = raised s, started = Some span, forwarded = Some r,
          response = Some (writerAfter s), finished = Some (leave sc s)\<rparr>)))))"

text \<open>\<open>TraceWithOptions\<close> builds the configuration once and returns the middleware.\<close>

definition TraceWithOptions ::
  "'ctx semconv \<Rightarrow> 'ctx otel \<Rightarrow> 'ctx TraceOption list
     \<Rightarrow> panic + (('ctx, 'w) Handler \<Rightarrow> 'ctx otel \<Rightarrow> 'w \<Rightarrow> 'ctx Request \<Rightarrow> ('ctx, 'w) outcome)" where
  "TraceWithOptions sc g opt =
     (case newConfig g opt of
        Inl p \<Rightarrow> Inl p
      | Inr config \<Rightarrow> Inr (\<lambda>next. fn sc config next))"

text \<open>\<open>Trace\<close> is \<open>TraceWithOptions()(next)\<close>.\<close>

definition Trace ::
  "'ctx semconv \<Rightarrow> 'ctx otel \<Rightarrow> ('ctx, 'w) Handler
     \<Rightarrow> panic + ('ctx otel \<Rightarrow> 'w \<Rightarrow> 'ctx Request \<Rightarrow> ('ctx, 'w) outcome)" where
  "Trace sc g next =
     (case TraceWithOptions sc g [] of
        Inl p \<Rightarrow> Inl p
      | Inr middleware \<Rightarrow> Inr (middleware next))"


section \<open>Notions used to state the properties\<close>

text \<open>
  An option keeps a field when it is not \<open>nil\<close> and the field has the same value before
  and after it. \<open>WithTracer\<close> keeps the propagator, the service name and the attributes,
  and so on for the other three options.
\<close>

definition keeps :: "('ctx traceConfig \<Rightarrow> 'a) \<Rightarrow> 'ctx TraceOption \<Rightarrow> bool" where
  "keeps field x = (case x of None \<Rightarrow> False | Some f \<Rightarrow> \<forall>c. field (f c) = field c)"

text \<open>
  An option ignores the service name when it is not \<open>nil\<close> and what it leaves in the
  other fields does not depend on the service name it finds. The four options of the
  package do.
\<close>

definition ignoresServiceName :: "'ctx TraceOption \<Rightarrow> bool" where
  "ignoresServiceName x =
     (case x of
        None \<Rightarrow> False
      | Some f \<Rightarrow> \<forall>c n. (f (c\<lparr>serviceName := n\<rparr>))\<lparr>serviceName := []\<rparr> = (f c)\<lparr>serviceName := []\<rparr>)"

text \<open>
  The specification's words for the convenience entry point: the handler of the
  middleware under the configuration in which every field has its default.
\<close>

definition Trace_spec ::
  "'ctx semconv \<Rightarrow> 'ctx otel \<Rightarrow> ('ctx, 'w) Handler
     \<Rightarrow> 'ctx otel \<Rightarrow> 'w \<Rightarrow> 'ctx Request \<Rightarrow> ('ctx, 'w) outcome" where
  "Trace_spec sc g next =
     fn sc \<lparr>serviceName = ''TracedApplication'',
            tracer = Some (otel_Tracer g ''github.com/vincentfree/opentelemetry/otelmiddleware''
                             ''0.1.0''),
            propagator = Some (otel_GetTextMapPropagator g),
            attributes = []\<rparr> next"

section \<open>Concrete collaborators\<close>

text \<open>
  Collaborators on which the middleware can be run: contexts are lists of strings, a
  propagator tags what it extracts and injects, the tracer samples every span, and the
  semantic conventions keep the host, the route and the status code.
\<close>

definition tagPropagator :: "string \<Rightarrow> string list TextMapPropagator" where
  "tagPropagator tag =
     \<lparr>Extract = (\<lambda>ctx h. tag # ctx), Inject = (\<lambda>ctx h. (tag, ctx) # h)\<rparr>"

definition listTracer :: "string list Tracer" where
  "listTracer =
     \<lparr>contextWithSpan = (\<lambda>ctx name opts. name # ctx), samples = (\<lambda>ctx name opts. True)\<rparr>"

definition listOtel :: "string list otel" where
  "listOtel =
     \<lparr>otel_Tracer = (\<lambda>name v. listTracer), otel_GetTextMapPropagator = tagPropagator ''global''\<rparr>"

definition listSemconv :: "string list semconv" where
  "listSemconv =
     \<lparr>NetAttributesFromHTTPRequest = (\<lambda>network r. [(''net.transport'', STRING network)]),
      EndUserAttributesFromHTTPRequest = (\<lambda>r. []),
      HTTPServerAttributesFromHTTPRequest =
        (\<lambda>serverName route r. [(''http.server_name'', STRING serverName),
                                (''http.route'', STRING route)]),
      HTTPClientAttributesFromHTTPRequest = (\<lambda>r. [(''http.method'', STRING (Method r))]),
      TelemetrySDKLanguageGo = (''telemetry.sdk.language'', STRING ''go''),
      HTTPAttributesFromHTTPStatusCode = (\<lambda>code. [(''http.status_code'', INT64 code)])\<rparr>"

definition get :: "string \<Rightarrow> string list Request" where
  "get uri =
     \<lparr>Context = [], Header = [], Host = ''example.com'', RequestURI = uri,
      Proto = ''HTTP/1.1'', ProtoMajor = 1, Method = ''GET''\<rparr>"

text \<open>A downstream handler that writes a status and returns, and one that panics.\<close>

definition writes :: "int \<Rightarrow> (string list, unit) Handler" where
  "writes code w r span = \<lparr>raised = None, writerAfter = w\<lparr>captured := code\<rparr>, spanAfter = span\<rparr>"

definition panics :: "(string list, unit) Handler" where
  "panics w r span = \<lparr>raised = Some (PanicValue ''boom''), writerAfter = w, spanAfter = span\<rparr>"

section \<open>The loop over the options\<close>

lemma applyOptions_append:
  "applyOptions (xs @ ys) c =
     (case applyOptions xs c of Inl p \<Rightarrow> Inl p | Inr c' \<Rightarrow> applyOptions ys c')"
  by (induction xs c rule: applyOptions.induct) simp_all

lemma applyOptions_total:
  "None \<notin> set opt \<Longrightarrow> \<exists>c'. applyOptions opt c = Inr c'"
  by (induction opt c rule: applyOptions.induct) simp_all

lemma applyOptions_nil:
  "None \<in> set opt \<Longrightarrow> applyOptions opt c = Inl NilDereference"
  by (induction opt c rule: applyOptions.induct) auto

lemma applyOptions_keeps:
  "list_all (keeps field) opt \<Longrightarrow> \<exists>c'. applyOptions opt c = Inr c' \<and> field c' = field c"
  by (induction opt c rule: applyOptions.induct) (simp_all add: keeps_def)

lemma keeps_not_nil: "keeps field x \<Longrightarrow> x \<noteq> None"
  by (cases x) (simp_all add: keeps_def)

section \<open>The defaults\<close>

lemma withDefaults_tracer:
  "tracer (withDefaults g c) =
     Some (case tracer c of
             None \<Rightarrow> otel_Tracer g ''github.com/vincentfree/opentelemetry/otelmiddleware'' ''0.1.0''
           | Some t \<Rightarrow> t)"
  by (simp add: withDefaults_def version_def Let_def split: option.splits)

lemma withDefaults_propagator:
  "propagator (withDefaults g c) =
     Some (case propagator c of None \<Rightarrow> otel_GetTextMapPropagator g | Some p \<Rightarrow> p)"
  by (simp add: withDefaults_def Let_def split: option.splits)

lemma withDefaults_serviceName:
  "serviceName (withDefaults g c) =
     (if serviceName c = [] then ''TracedApplication'' else serviceName c)"
  by (simp add: withDefaults_def Let_def)

lemma withDefaults_attributes: "attributes (withDefaults g c) = attributes c"
  by (simp add: withDefaults_def Let_def)

lemma newConfig_Inr:
  "applyOptions opt emptyConfig = Inr c0 \<Longrightarrow> newConfig g opt = Inr (withDefaults g c0)"
  by (simp add: newConfig_def)

lemma TraceWithOptions_Inr:
  "applyOptions opt emptyConfig = Inr c0 \<Longrightarrow>
   TraceWithOptions sc g opt = Inr (\<lambda>next. fn sc (withDefaults g c0) next)"
  by (simp add: TraceWithOptions_def newConfig_def)

section \<open>The handler\<close>

lemma fn_no_propagator:
  "propagator config = None \<Longrightarrow> fn sc config next g w r = aborted NilDereference"
  by (simp add: fn_def)

lemma fn_empty_uri:
  "propagator config = Some p \<Longrightarrow> RequestURI r = [] \<Longrightarrow>
   fn sc config next g w r = aborted SliceBoundsOutOfRange"
  by (simp add: fn_def extractRoute_def)

lemma fn_no_tracer:
  "propagator config = Some p \<Longrightarrow> RequestURI r = c # rest \<Longrightarrow> tracer config = None \<Longrightarrow>
   fn sc config next g w r = aborted NilDereference"
  by (simp add: fn_def extractRoute_def Let_def)

lemma fn_run:
  assumes "propagator config = Some p" and "tracer config = Some t" and "RequestURI r = c # rest"
  shows "fn sc config next g w r =
    (let parent = Extract p (Context r) (Header r);
         opts = startOpts sc config r rest;
         name = nameSpan r rest;
         ctx = contextWithSpan t parent name opts;
         span = \<lparr>startName = name, spanParent = parent, startOptions = opts,
                  recording = samples t parent name opts, attributesSet = [], endCalls = 0\<rparr>;
         r' = r\<lparr>Context := ctx, Header := Inject (otel_GetTextMapPropagator g) ctx (Header r)\<rparr>;
         s = next (NewWrapResponseWriter w (ProtoMajor r)) r' span
     in \<lparr>panicked = raised s, started = Some span, forwarded = Some r',
         response = Some (writerAfter s), finished = Some (leave sc s)\<rparr>)"
  using assms by (simp add: fn_def extractRoute_def Let_def Start_def)

text \<open>What a middleware built by \<open>TraceWithOptions\<close> does with a request whose
  \<open>RequestURI\<close> is not empty.\<close>

lemma middleware_run:
  assumes "applyOptions opt emptyConfig = Inr c0" and "RequestURI r = c # rest"
  shows "\<exists>mw. TraceWithOptions sc g0 opt = Inr mw \<and> mw next g w r =
    (let parent = Extract (case propagator c0 of None \<Rightarrow> otel_GetTextMapPropagator g0 | Some p \<Rightarrow> p)
                    (Context r) (Header r);
         t = (case tracer c0 of
                None \<Rightarrow> otel_Tracer g0 ''github.com/vincentfree/opentelemetry/otelmiddleware'' ''0.1.0''
              | Some t \<Rightarrow> t);
         opts = startOpts sc (withDefaults g0 c0) r rest;
         name = nameSpan r rest;
         ctx = contextWithSpan t parent name opts;
         span = \<lparr>startName = name, spanParent = parent, startOptions = opts,
                  recording = samples t parent name opts, attributesSet = [], endCalls = 0\<rparr>;
         r' = r\<lparr>Context := ctx, Header := Inject (otel_GetTextMapPropagator g) ctx (Header r)\<rparr>;
         s = next (NewWrapResponseWriter w (ProtoMajor r)) r' span
     in \<lparr>panicked = raised s, started = Some span, forwarded = Some r',
         response = Some (writerAfter s), finished = Some (leave sc s)\<rparr>)"
  using assms
  by (simp add: TraceWithOptions_Inr
      fn_run [OF withDefaults_propagator withDefaults_tracer, where c = c and rest = rest] Let_def)

lemma middleware_empty_uri:
  assumes "applyOptions opt emptyConfig = Inr c0" and "RequestURI r = []"
  shows "\<exists>mw. TraceWithOptions sc g0 opt = Inr mw \<and> mw next g w r = aborted SliceBoundsOutOfRange"
  using assms
  by (simp add: TraceWithOptions_Inr fn_empty_uri [OF withDefaults_propagator])

lemma startOpts_eq:
  "startOpts sc config r route =
     [trace_WithAttributes (NetAttributesFromHTTPRequest sc ''tcp'' r),
      trace_WithAttributes (EndUserAttributesFromHTTPRequest sc r),
      trace_WithAttributes (HTTPServerAttributesFromHTTPRequest sc (Host r) route r),
      trace_WithAttributes (HTTPClientAttributesFromHTTPRequest sc r),
      trace_WithAttributes [TelemetrySDKLanguageGo sc],
      trace_WithSpanKind SpanKindServer]
     @ (if attributes config = [] then [] else [trace_WithAttributes (attributes config)])"
  by (simp add: startOpts_def Let_def)

lemma nameSpan_eq:
  "nameSpan r route =
     Method r @ '' /'' @ (if route = [] then Proto r @ '' '' @ Method r @ '' /'' else route)"
  by (simp add: nameSpan_def Let_def)

section \<open>The route\<close>

text \<open>
  C9. \<open>extractRoute\<close> returns the rest after the first byte of a \<open>RequestURI\<close> of length
  at least 1 and panics on the empty one, where the slice \<open>uri[1:]\<close> is out of bounds.
  A middleware built from options none of which is \<open>nil\<close> then panics on a request with
  an empty \<open>RequestURI\<close>, and no span has been started.
\<close>

theorem extractRoute_empty_panics:
  "(1 \<le> length uri \<longrightarrow> extractRoute uri = Inr (tl uri))
   \<and> extractRoute [] = Inl SliceBoundsOutOfRange
   \<and> (None \<notin> set opt \<longrightarrow>
        (\<exists>mw. TraceWithOptions sc g0 opt = Inr mw
           \<and> panicked (mw next g w (r\<lparr>RequestURI := []\<rparr>)) = Some SliceBoundsOutOfRange
           \<and> started (mw next g w (r\<lparr>RequestURI := []\<rparr>)) = None
           \<and> finished (mw next g w (r\<lparr>RequestURI := []\<rparr>)) = None))"
proof (intro conjI impI)
  assume "1 \<le> length uri"
  then show "extractRoute uri = Inr (tl uri)"
    by (cases uri) (simp_all add: extractRoute_def)
next
  show "extractRoute [] = Inl SliceBoundsOutOfRange"
    by (simp add: extractRoute_def)
next
  assume "None \<notin> set opt"
  then obtain c0 :: "'a traceConfig" where "applyOptions opt emptyConfig = Inr c0"
    using applyOptions_total by blast
  then obtain mw where "TraceWithOptions sc g0 opt = Inr mw"
    and "mw next g w (r\<lparr>RequestURI := []\<rparr>) = aborted SliceBoundsOutOfRange"
    using middleware_empty_uri [of opt c0 "r\<lparr>RequestURI := []\<rparr>" sc g0 "next" g w] by auto
  then show "\<exists>mw. TraceWithOptions sc g0 opt = Inr mw
           \<and> panicked (mw next g w (r\<lparr>RequestURI := []\<rparr>)) = Some SliceBoundsOutOfRange
           \<and> started (mw next g w (r\<lparr>RequestURI := []\<rparr>)) = None
           \<and> finished (mw next g w (r\<lparr>RequestURI := []\<rparr>)) = None"
    by (simp add: aborted_def)
qed

theorem extractRoute_empty_panics_witness:
  "1 \<le> length ''/foo'' \<and> extractRoute ''/foo'' = Inr ''foo''
   \<and> None \<notin> set [WithServiceName ''svc'' :: string list TraceOption]
   \<and> (\<exists>mw. TraceWithOptions listSemconv listOtel [WithServiceName ''svc''] = Inr mw
         \<and> panicked (mw (writes 200) listOtel () (get [])) = Some SliceBoundsOutOfRange
         \<and> started (mw (writes 200) listOtel () (get [])) = None
         \<and> finished (mw (writes 200) listOtel () (get [])) = None)"
  using extractRoute_empty_panics [of "''/foo''" "[WithServiceName ''svc'']" listSemconv listOtel
      "writes 200" listOtel "()" "get []"]
  by (simp add: WithServiceName_def get_def)

lemma nameSpan_root:
  "nameSpan r [] = Method r @ '' /'' @ Proto r @ '' '' @ Method r @ '' /''"
  by (simp add: nameSpan_eq)

lemma nameSpan_path: "route \<noteq> [] \<Longrightarrow> nameSpan r route = Method r @ '' /'' @ route"
  by (simp add: nameSpan_eq)

lemma Trace_Inr:
  "TraceWithOptions sc g [] = Inr mw \<Longrightarrow> Trace sc g next = Inr (mw next)"
  by (simp add: Trace_def)

lemma withDefaults_emptyConfig:
  "withDefaults g emptyConfig =
     \<lparr>serviceName = ''TracedApplication'',
      tracer = Some (otel_Tracer g ''github.com/vincentfree/opentelemetry/otelmiddleware'' ''0.1.0''),
      propagator = Some (otel_GetTextMapPropagator g),
      attributes = []\<rparr>"
  by (simp add: withDefaults_def emptyConfig_def version_def Let_def)

section \<open>The span name\<close>

text \<open>
  C1. The claim: a request to \<open>/\<close> gets the span name \<open><protocol> <method> /\<close> and a
  request to \<open>/foo/bar\<close> the span name \<open><method> /foo/bar\<close>. The handler puts the method
  and \<open> /\<close> in front of the name in both cases, also in front of the fallback it has
  just built for the empty route: \<open>Trace\<close> on \<open>GET /\<close> over \<open>HTTP/1.1\<close> names the span
  \<open>GET /HTTP/1.1 GET /\<close>, while \<open>GET /foo/bar\<close> is named \<open>GET /foo/bar\<close> as claimed.
\<close>

theorem root_span_name_repeats_method:
  "\<exists>mw. Trace listSemconv listOtel (writes 200) = Inr mw
     \<and> map_option startName (started (mw listOtel () (get ''/''))) = Some ''GET /HTTP/1.1 GET /''
     \<and> map_option startName (started (mw listOtel () (get ''/foo/bar''))) = Some ''GET /foo/bar''"
proof -
  have e: "applyOptions [] (emptyConfig :: string list traceConfig) = Inr emptyConfig"
    by simp
  have t: "TraceWithOptions listSemconv listOtel [] =
      Inr (\<lambda>next :: (string list, unit) Handler. fn listSemconv (withDefaults listOtel emptyConfig) next)"
    using e by (rule TraceWithOptions_Inr)
  have p: "propagator (withDefaults listOtel (emptyConfig :: string list traceConfig))
      = Some (tagPropagator ''global'')"
    by (simp add: withDefaults_emptyConfig listOtel_def)
  have tr: "tracer (withDefaults listOtel (emptyConfig :: string list traceConfig)) = Some listTracer"
    by (simp add: withDefaults_emptyConfig listOtel_def)
  have u1: "RequestURI (get ''/'') = CHR ''/'' # []" by (simp add: get_def)
  have u2: "RequestURI (get ''/foo/bar'') = CHR ''/'' # ''foo/bar''" by (simp add: get_def)
  have n1: "nameSpan (get ''/'') [] = ''GET /HTTP/1.1 GET /''"
    by (simp add: nameSpan_root get_def)
  have n2: "nameSpan (get ''/foo/bar'') ''foo/bar'' = ''GET /foo/bar''"
    by (simp add: nameSpan_path get_def)
  have "map_option startName
      (started (fn listSemconv (withDefaults listOtel emptyConfig) (writes 200) listOtel () (get ''/'')))
      = Some ''GET /HTTP/1.1 GET /''"
    by (simp add: fn_run [OF p tr u1] Let_def n1)
  moreover have "map_option startName
      (started (fn listSemconv (withDefaults listOtel emptyConfig) (writes 200) listOtel () (get ''/foo/bar'')))
      = Some ''GET /foo/bar''"
    by (simp add: fn_run [OF p tr u2] Let_def n2)
  ultimately show ?thesis
    using Trace_Inr [OF t, of "writes 200"] by simp
qed

text \<open>
  C10. The span name and the route come from the whole \<open>RequestURI\<close>: when it is one
  byte followed by a path, \<open>?\<close> and a query, the query stands in the span name and in
  the route handed to \<open>HTTPServerAttributesFromHTTPRequest\<close>, the third start option.
\<close>

theorem query_string_in_span_name_and_route:
  assumes "None \<notin> set opt" and "RequestURI r = c # path @ ''?'' @ query"
  shows "\<exists>mw sp. TraceWithOptions sc g0 opt = Inr mw \<and> started (mw next g w r) = Some sp
      \<and> startName sp = Method r @ '' /'' @ path @ ''?'' @ query
      \<and> startOptions sp ! 2 =
          trace_WithAttributes
            (HTTPServerAttributesFromHTTPRequest sc (Host r) (path @ ''?'' @ query) r)"
proof -
  obtain c0 :: "'a traceConfig" where c0: "applyOptions opt emptyConfig = Inr c0"
    using assms(1) applyOptions_total by blast
  obtain mw where mw: "TraceWithOptions sc g0 opt = Inr mw"
    and run: "started (mw next g w r) =
      Some \<lparr>startName = nameSpan r (path @ ''?'' @ query),
            spanParent = Extract (case propagator c0 of None \<Rightarrow> otel_GetTextMapPropagator g0 | Some p \<Rightarrow> p)
                    (Context r) (Header r),
            startOptions = startOpts sc (withDefaults g0 c0) r (path @ ''?'' @ query),
            recording = samples (case tracer c0 of
                None \<Rightarrow> otel_Tracer g0 ''github.com/vincentfree/opentelemetry/otelmiddleware'' ''0.1.0''
              | Some t \<Rightarrow> t) (Extract (case propagator c0 of None \<Rightarrow> otel_GetTextMapPropagator g0 | Some p \<Rightarrow> p)
                    (Context r) (Header r)) (nameSpan r (path @ ''?'' @ query))
                    (startOpts sc (withDefaults g0 c0) r (path @ ''?'' @ query)),
            attributesSet = [], endCalls = 0\<rparr>"
    using middleware_run [OF c0 assms(2), of sc g0 "next" g w] by (auto simp add: Let_def)
  show ?thesis
    using mw run by (simp add: nameSpan_path startOpts_eq)
qed

theorem query_string_in_span_name_and_route_witness:
  "None \<notin> set ([] :: string list TraceOption list)
   \<and> RequestURI (get ''/foo?x=1'') = CHR ''/'' # ''foo'' @ ''?'' @ ''x=1''
   \<and> (\<exists>mw sp. TraceWithOptions listSemconv listOtel [] = Inr mw
         \<and> started (mw (writes 200) listOtel () (get ''/foo?x=1'')) = Some sp
         \<and> startName sp = ''GET /foo?x=1''
         \<and> startOptions sp ! 2 =
             trace_WithAttributes [(''http.server_name'', STRING ''example.com''),
                                   (''http.route'', STRING ''foo?x=1'')])"
  using query_string_in_span_name_and_route [of "[]" "get ''/foo?x=1''" "CHR ''/''" "''foo''" "''x=1''"
      listSemconv listOtel "writes 200" listOtel "()"]
  by (simp add: get_def listSemconv_def)


section \<open>The configuration\<close>

text \<open>
  C8. \<open>Trace(next)\<close> is \<open>TraceWithOptions()(next)\<close>, and that is the handler under the
  configuration in which every field has its default.
\<close>

theorem Trace_applies_defaults:
  "\<exists>mw. TraceWithOptions sc g [] = Inr mw
     \<and> Trace sc g (next :: ('ctx, 'w) Handler) = Inr (mw next)
     \<and> mw next = Trace_spec sc g next"
proof -
  have "applyOptions [] (emptyConfig :: 'ctx traceConfig) = Inr emptyConfig"
    by simp
  then have t: "TraceWithOptions sc g [] =
      Inr (\<lambda>next :: ('ctx, 'w) Handler. fn sc (withDefaults g emptyConfig) next)"
    by (rule TraceWithOptions_Inr)
  show ?thesis
    using t Trace_Inr [OF t, of "next"] by (simp add: Trace_spec_def withDefaults_emptyConfig)
qed


text \<open>
  C5. When no option is \<open>nil\<close> the construction returns a configuration. Its tracer is
  the one the options left, or \<open>otel.Tracer\<close> of the library name and version 0.1.0 when
  they left none; its propagator is the one the options left, or the global one; its
  service name is the one the options left, or \<open>TracedApplication\<close> when that is empty.
  Options that keep the tracer (the propagator) leave none.
\<close>

theorem newConfig_defaults:
  assumes "None \<notin> set opt"
  shows "\<exists>c0 c. applyOptions opt emptyConfig = Inr c0 \<and> newConfig g opt = Inr c
      \<and> tracer c = Some (case tracer c0 of
            None \<Rightarrow> otel_Tracer g ''github.com/vincentfree/opentelemetry/otelmiddleware'' ''0.1.0''
          | Some t \<Rightarrow> t)
      \<and> propagator c = Some (case propagator c0 of None \<Rightarrow> otel_GetTextMapPropagator g | Some p \<Rightarrow> p)
      \<and> serviceName c = (if serviceName c0 = [] then ''TracedApplication'' else serviceName c0)
      \<and> attributes c = attributes c0
      \<and> (list_all (keeps tracer) opt \<longrightarrow> tracer c0 = None)
      \<and> (list_all (keeps propagator) opt \<longrightarrow> propagator c0 = None)"
proof -
  obtain c0 :: "'a traceConfig" where c0: "applyOptions opt emptyConfig = Inr c0"
    using assms applyOptions_total by blast
  have "list_all (keeps tracer) opt \<longrightarrow> tracer c0 = None"
    using applyOptions_keeps [of tracer opt emptyConfig] c0 by (auto simp add: emptyConfig_def)
  moreover have "list_all (keeps propagator) opt \<longrightarrow> propagator c0 = None"
    using applyOptions_keeps [of propagator opt emptyConfig] c0 by (auto simp add: emptyConfig_def)
  ultimately show ?thesis
    using c0 newConfig_Inr [OF c0, of g]
    by (simp add: withDefaults_tracer withDefaults_propagator withDefaults_serviceName
        withDefaults_attributes)
qed

theorem newConfig_defaults_witness:
  "None \<notin> set [WithAttributes [(''env'', STRING ''prod'')], WithServiceName [] :: string list TraceOption]
   \<and> list_all (keeps tracer) [WithAttributes [(''env'', STRING ''prod'')], WithServiceName [] :: string list TraceOption]
   \<and> list_all (keeps propagator) [WithAttributes [(''env'', STRING ''prod'')], WithServiceName [] :: string list TraceOption]
   \<and> (\<exists>c. newConfig listOtel [WithAttributes [(''env'', STRING ''prod'')], WithServiceName []] = Inr c
         \<and> tracer c = Some (otel_Tracer listOtel ''github.com/vincentfree/opentelemetry/otelmiddleware'' ''0.1.0'')
         \<and> propagator c = Some (otel_GetTextMapPropagator listOtel)
         \<and> serviceName c = ''TracedApplication''
         \<and> attributes c = [(''env'', STRING ''prod'')])"
  using newConfig_defaults [of "[WithAttributes [(''env'', STRING ''prod'')], WithServiceName []]" listOtel]
  by (auto simp add: WithAttributes_def WithServiceName_def keeps_def emptyConfig_def)


section \<open>Serving a request\<close>

lemma middleware_fields:
  assumes "applyOptions opt emptyConfig = Inr c0" and "RequestURI r = c # rest"
  shows "\<exists>mw sp fw. TraceWithOptions sc g0 opt = Inr mw
     \<and> started (mw next g w r) = Some sp \<and> forwarded (mw next g w r) = Some fw
     \<and> panicked (mw next g w r) = raised (next (NewWrapResponseWriter w (ProtoMajor r)) fw sp)
     \<and> response (mw next g w r) =
         Some (writerAfter (next (NewWrapResponseWriter w (ProtoMajor r)) fw sp))
     \<and> finished (mw next g w r) =
         Some (leave sc (next (NewWrapResponseWriter w (ProtoMajor r)) fw sp))
     \<and> startName sp = nameSpan r rest
     \<and> spanParent sp =
         Extract (case propagator c0 of None \<Rightarrow> otel_GetTextMapPropagator g0 | Some p \<Rightarrow> p)
           (Context r) (Header r)
     \<and> startOptions sp = startOpts sc (withDefaults g0 c0) r rest
     \<and> attributesSet sp = [] \<and> endCalls sp = 0
     \<and> Header fw = Inject (otel_GetTextMapPropagator g) (Context fw) (Header r)"
proof -
  obtain mw where "TraceWithOptions sc g0 opt = Inr mw" and "mw next g w r =
    (let parent = Extract (case propagator c0 of None \<Rightarrow> otel_GetTextMapPropagator g0 | Some p \<Rightarrow> p)
                    (Context r) (Header r);
         t = (case tracer c0 of
                None \<Rightarrow> otel_Tracer g0 ''github.com/vincentfree/opentelemetry/otelmiddleware'' ''0.1.0''
              | Some t \<Rightarrow> t);
         opts = startOpts sc (withDefaults g0 c0) r rest;
         name = nameSpan r rest;
         ctx = contextWithSpan t parent name opts;
         span = \<lparr>startName = name, spanParent = parent, startOptions = opts,
                  recording = samples t parent name opts, attributesSet = [], endCalls = 0\<rparr>;
         r' = r\<lparr>Context := ctx, Header := Inject (otel_GetTextMapPropagator g) ctx (Header r)\<rparr>;
         s = next (NewWrapResponseWriter w (ProtoMajor r)) r' span
     in \<lparr>panicked = raised s, started = Some span, forwarded = Some r',
         response = Some (writerAfter s), finished = Some (leave sc s)\<rparr>)"
    using middleware_run [OF assms, of sc g0 "next" g w] by blast
  then show ?thesis
    by (simp add: Let_def)
qed

lemma applyOptions_override:
  assumes "None \<notin> set before" and "list_all (keeps field) after"
  shows "\<exists>c1 c2. applyOptions before c0 = Inr c1
     \<and> applyOptions (before @ Some f # after) c0 = Inr c2 \<and> field c2 = field (f c1)"
proof -
  obtain c1 where c1: "applyOptions before c0 = Inr c1"
    using assms(1) applyOptions_total by blast
  obtain c2 where "applyOptions after (f c1) = Inr c2" and "field c2 = field (f c1)"
    using assms(2) applyOptions_keeps by blast
  then show ?thesis
    using c1 by (simp add: applyOptions_append)
qed

lemma leave_endCalls: "endCalls (leave sc s) = Suc (endCalls (spanAfter s))"
  by (simp add: leave_def End_def SetAttributes_def Let_def split: option.splits)

lemma leave_attributesSet:
  "attributesSet (leave sc s) =
     (if raised s = None \<and> IsRecording (spanAfter s)
      then attributesSet (spanAfter s) @ HTTPAttributesFromHTTPStatusCode sc (Status (writerAfter s))
      else attributesSet (spanAfter s))"
  by (simp add: leave_def End_def SetAttributes_def Let_def split: option.splits)

text \<open>
  C4. On a request for which a span is started, whether \<open>next\<close> returns or panics, the
  handler calls \<open>End\<close> on the span once: the span it leaves has one more call of \<open>End\<close>
  than \<open>next\<close> left on it, the started span has none, and a panic of \<open>next\<close> is the
  panic that leaves the handler.
\<close>

theorem span_ended_once:
  assumes "None \<notin> set opt" and "RequestURI r \<noteq> []"
  shows "\<exists>mw sp fw fin. TraceWithOptions sc g0 opt = Inr mw
     \<and> started (mw next g w r) = Some sp \<and> forwarded (mw next g w r) = Some fw
     \<and> finished (mw next g w r) = Some fin
     \<and> endCalls sp = 0
     \<and> panicked (mw next g w r) = raised (next (NewWrapResponseWriter w (ProtoMajor r)) fw sp)
     \<and> endCalls fin = Suc (endCalls (spanAfter (next (NewWrapResponseWriter w (ProtoMajor r)) fw sp)))"
proof -
  obtain c0 :: "'a traceConfig" where c0: "applyOptions opt emptyConfig = Inr c0"
    using assms(1) applyOptions_total by blast
  obtain c rest where uri: "RequestURI r = c # rest"
    using assms(2) by (cases "RequestURI r") simp_all
  show ?thesis
    using middleware_fields [OF c0 uri, of sc g0 "next" g w] by (auto simp add: leave_endCalls)
qed

theorem span_ended_once_witness:
  "None \<notin> set [WithServiceName ''svc'' :: string list TraceOption]
   \<and> RequestURI (get ''/x'') \<noteq> []
   \<and> (\<exists>mw fin. TraceWithOptions listSemconv listOtel [WithServiceName ''svc''] = Inr mw
        \<and> finished (mw panics listOtel () (get ''/x'')) = Some fin
        \<and> panicked (mw panics listOtel () (get ''/x'')) = Some (PanicValue ''boom'')
        \<and> endCalls fin = 1)"
  using span_ended_once [of "[WithServiceName ''svc'']" "get ''/x''" listSemconv listOtel
      panics listOtel "()"]
  by (auto simp add: WithServiceName_def get_def panics_def)

text \<open>
  C6. The span that the handler leaves has, after the attributes that \<open>next\<close> left on
  it, the attributes of the status that the wrapped writer captured exactly when \<open>next\<close>
  returned and the span is recording then; otherwise its attributes are those that
  \<open>next\<close> left.
\<close>

theorem status_attribute_iff_recording:
  assumes "None \<notin> set opt" and "RequestURI r \<noteq> []"
  shows "\<exists>mw sp fw fin. TraceWithOptions sc g0 opt = Inr mw
     \<and> started (mw next g w r) = Some sp \<and> forwarded (mw next g w r) = Some fw
     \<and> finished (mw next g w r) = Some fin
     \<and> (let s = next (NewWrapResponseWriter w (ProtoMajor r)) fw sp in
          response (mw next g w r) = Some (writerAfter s)
          \<and> attributesSet fin =
              (if raised s = None \<and> IsRecording (spanAfter s)
               then attributesSet (spanAfter s)
                      @ HTTPAttributesFromHTTPStatusCode sc (Status (writerAfter s))
               else attributesSet (spanAfter s)))"
proof -
  obtain c0 :: "'a traceConfig" where c0: "applyOptions opt emptyConfig = Inr c0"
    using assms(1) applyOptions_total by blast
  obtain c rest where uri: "RequestURI r = c # rest"
    using assms(2) by (cases "RequestURI r") simp_all
  obtain mw sp fw where mw: "TraceWithOptions sc g0 opt = Inr mw"
    and sp: "started (mw next g w r) = Some sp" and fw: "forwarded (mw next g w r) = Some fw"
    and re: "response (mw next g w r) =
         Some (writerAfter (next (NewWrapResponseWriter w (ProtoMajor r)) fw sp))"
    and fin: "finished (mw next g w r) =
         Some (leave sc (next (NewWrapResponseWriter w (ProtoMajor r)) fw sp))"
    using middleware_fields [OF c0 uri, of sc g0 "next" g w] by blast
  show ?thesis
    by (rule exI [of _ mw], rule exI [of _ sp], rule exI [of _ fw],
        rule exI [of _ "leave sc (next (NewWrapResponseWriter w (ProtoMajor r)) fw sp)"])
      (simp add: mw sp fw re fin leave_attributesSet Let_def)
qed

theorem status_attribute_iff_recording_witness:
  "None \<notin> set ([] :: string list TraceOption list)
   \<and> None \<notin> set [WithTracer (Some (listTracer\<lparr>samples := (\<lambda>ctx name opts. False)\<rparr>))]
   \<and> RequestURI (get ''/x'') \<noteq> []
   \<and> (\<exists>mw fin. TraceWithOptions listSemconv listOtel [] = Inr mw
        \<and> finished (mw (writes 404) listOtel () (get ''/x'')) = Some fin
        \<and> attributesSet fin = [(''http.status_code'', INT64 404)])
   \<and> (\<exists>mw fin. TraceWithOptions listSemconv listOtel
            [WithTracer (Some (listTracer\<lparr>samples := (\<lambda>ctx name opts. False)\<rparr>))] = Inr mw
        \<and> finished (mw (writes 404) listOtel () (get ''/x'')) = Some fin
        \<and> attributesSet fin = [])"
  using status_attribute_iff_recording [of "[]" "get ''/x''" listSemconv listOtel
      "writes 404" listOtel "()"]
    status_attribute_iff_recording
      [of "[WithTracer (Some (listTracer\<lparr>samples := (\<lambda>ctx name opts. False)\<rparr>))]" "get ''/x''"
        listSemconv listOtel "writes 404" listOtel "()"]
  by (simp add: TraceWithOptions_def newConfig_def withDefaults_def emptyConfig_def fn_def
      extractRoute_def Start_def leave_def End_def SetAttributes_def IsRecording_def Status_def
      NewWrapResponseWriter_def WithTracer_def get_def writes_def listOtel_def listTracer_def
      listSemconv_def tagPropagator_def Let_def)


section \<open>The options in a request\<close>

text \<open>
  C2. Extraction uses the configured propagator and injection the global one. After
  \<open>WithPropagator(p)\<close>, followed only by options that keep the propagator, the parent
  context of the span is what \<open>p\<close> extracts from the request; with options that all
  keep the propagator it is what the global propagator, as read when the middleware was
  built, extracts. In both cases the headers handed to \<open>next\<close> are those that the global
  propagator, as read while the request is served, injects the context of the span into.
\<close>

theorem extract_configured_inject_global:
  assumes "None \<notin> set before" and "list_all (keeps propagator) after"
    and "RequestURI r \<noteq> []"
  shows "(\<exists>mw sp fw. TraceWithOptions sc g0 (before @ WithPropagator (Some p) # after) = Inr mw
            \<and> started (mw next g w r) = Some sp \<and> forwarded (mw next g w r) = Some fw
            \<and> spanParent sp = Extract p (Context r) (Header r)
            \<and> Header fw = Inject (otel_GetTextMapPropagator g) (Context fw) (Header r))
       \<and> (\<exists>mw sp fw. TraceWithOptions sc g0 after = Inr mw
            \<and> started (mw next g w r) = Some sp \<and> forwarded (mw next g w r) = Some fw
            \<and> spanParent sp = Extract (otel_GetTextMapPropagator g0) (Context r) (Header r)
            \<and> Header fw = Inject (otel_GetTextMapPropagator g) (Context fw) (Header r))"
proof (rule conjI)
  obtain c rest where uri: "RequestURI r = c # rest"
    using assms(3) by (cases "RequestURI r") simp_all
  obtain c2 :: "'a traceConfig"
    where c2: "applyOptions (before @ WithPropagator (Some p) # after) emptyConfig = Inr c2"
      and p2: "propagator c2 = Some p"
    using applyOptions_override [OF assms(1,2), of emptyConfig "\<lambda>c. c\<lparr>propagator := Some p\<rparr>"]
    by (auto simp add: WithPropagator_def)
  show "\<exists>mw sp fw. TraceWithOptions sc g0 (before @ WithPropagator (Some p) # after) = Inr mw
            \<and> started (mw next g w r) = Some sp \<and> forwarded (mw next g w r) = Some fw
            \<and> spanParent sp = Extract p (Context r) (Header r)
            \<and> Header fw = Inject (otel_GetTextMapPropagator g) (Context fw) (Header r)"
    using middleware_fields [OF c2 uri, of sc g0 "next" g w] p2 by auto
  obtain c3 :: "'a traceConfig"
    where c3: "applyOptions after emptyConfig = Inr c3" and p3: "propagator c3 = None"
    using applyOptions_keeps [OF assms(2), of emptyConfig] by (auto simp add: emptyConfig_def)
  show "\<exists>mw sp fw. TraceWithOptions sc g0 after = Inr mw
            \<and> started (mw next g w r) = Some sp \<and> forwarded (mw next g w r) = Some fw
            \<and> spanParent sp = Extract (otel_GetTextMapPropagator g0) (Context r) (Header r)
            \<and> Header fw = Inject (otel_GetTextMapPropagator g) (Context fw) (Header r)"
    using middleware_fields [OF c3 uri, of sc g0 "next" g w] p3 by auto
qed

theorem extract_configured_inject_global_witness:
  "None \<notin> set [WithServiceName ''svc'' :: string list TraceOption]
   \<and> list_all (keeps propagator) [WithAttributes [(''env'', STRING ''prod'')] :: string list TraceOption]
   \<and> RequestURI (get ''/x'') \<noteq> []
   \<and> (\<exists>mw sp fw. TraceWithOptions listSemconv listOtel
           [WithServiceName ''svc'', WithPropagator (Some (tagPropagator ''custom'')),
            WithAttributes [(''env'', STRING ''prod'')]] = Inr mw
         \<and> started (mw (writes 200) (listOtel\<lparr>otel_GetTextMapPropagator := tagPropagator ''later''\<rparr>)
              () (get ''/x'')) = Some sp
         \<and> forwarded (mw (writes 200) (listOtel\<lparr>otel_GetTextMapPropagator := tagPropagator ''later''\<rparr>)
              () (get ''/x'')) = Some fw
         \<and> spanParent sp = [''custom'']
         \<and> Header fw = [(''later'', [''GET /x'', ''custom''])])
   \<and> (\<exists>mw sp fw. TraceWithOptions listSemconv listOtel
           [WithAttributes [(''env'', STRING ''prod'')]] = Inr mw
         \<and> started (mw (writes 200) (listOtel\<lparr>otel_GetTextMapPropagator := tagPropagator ''later''\<rparr>)
              () (get ''/x'')) = Some sp
         \<and> forwarded (mw (writes 200) (listOtel\<lparr>otel_GetTextMapPropagator := tagPropagator ''later''\<rparr>)
              () (get ''/x'')) = Some fw
         \<and> spanParent sp = [''global'']
         \<and> Header fw = [(''later'', [''GET /x'', ''global''])])"
  using extract_configured_inject_global [of "[WithServiceName ''svc'']"
      "[WithAttributes [(''env'', STRING ''prod'')]]" "get ''/x''" listSemconv listOtel
      "tagPropagator ''custom''" "writes 200"
      "listOtel\<lparr>otel_GetTextMapPropagator := tagPropagator ''later''\<rparr>" "()"]
  by (simp add: TraceWithOptions_def newConfig_def withDefaults_def emptyConfig_def fn_def
      extractRoute_def Start_def nameSpan_def keeps_def
      NewWrapResponseWriter_def WithServiceName_def WithPropagator_def WithAttributes_def
      get_def writes_def listOtel_def listTracer_def tagPropagator_def Let_def)

text \<open>
  C3. \<open>WithAttributes\<close> replaces the attribute list: whatever the options before it did,
  after \<open>WithAttributes(attrs)\<close>, followed only by options that keep the attributes, the
  configuration holds \<open>attrs\<close> and the span is started with the six standard options
  and then \<open>attrs\<close> alone (nothing more when \<open>attrs\<close> is empty). For any field, what an
  option leaves in it is what the loop ends with when the later options keep the field.
\<close>

theorem WithAttributes_replaces:
  assumes "None \<notin> set before" and "list_all (keeps attributes) after"
    and "RequestURI r = c # route"
  shows "(\<exists>cfg mw sp. newConfig g0 (before @ WithAttributes attrs # after) = Inr cfg
            \<and> attributes cfg = attrs
            \<and> TraceWithOptions sc g0 (before @ WithAttributes attrs # after) = Inr mw
            \<and> started (mw next g w r) = Some sp
            \<and> startOptions sp =
                [trace_WithAttributes (NetAttributesFromHTTPRequest sc ''tcp'' r),
                 trace_WithAttributes (EndUserAttributesFromHTTPRequest sc r),
                 trace_WithAttributes (HTTPServerAttributesFromHTTPRequest sc (Host r) route r),
                 trace_WithAttributes (HTTPClientAttributesFromHTTPRequest sc r),
                 trace_WithAttributes [TelemetrySDKLanguageGo sc],
                 trace_WithSpanKind SpanKindServer]
                @ (if attrs = [] then [] else [trace_WithAttributes attrs]))
       \<and> (list_all (keeps field) later \<longrightarrow>
            (\<exists>c1 c2. applyOptions before emptyConfig = Inr c1
               \<and> applyOptions (before @ Some f # later) emptyConfig = Inr c2
               \<and> field c2 = field (f c1)))"
proof (intro conjI impI)
  obtain c2 :: "'a traceConfig"
    where c2: "applyOptions (before @ WithAttributes attrs # after) emptyConfig = Inr c2"
      and a2: "attributes c2 = attrs"
    using applyOptions_override [OF assms(1,2), of emptyConfig "\<lambda>c. c\<lparr>attributes := attrs\<rparr>"]
    by (auto simp add: WithAttributes_def)
  show "\<exists>cfg mw sp. newConfig g0 (before @ WithAttributes attrs # after) = Inr cfg
            \<and> attributes cfg = attrs
            \<and> TraceWithOptions sc g0 (before @ WithAttributes attrs # after) = Inr mw
            \<and> started (mw next g w r) = Some sp
            \<and> startOptions sp =
                [trace_WithAttributes (NetAttributesFromHTTPRequest sc ''tcp'' r),
                 trace_WithAttributes (EndUserAttributesFromHTTPRequest sc r),
                 trace_WithAttributes (HTTPServerAttributesFromHTTPRequest sc (Host r) route r),
                 trace_WithAttributes (HTTPClientAttributesFromHTTPRequest sc r),
                 trace_WithAttributes [TelemetrySDKLanguageGo sc],
                 trace_WithSpanKind SpanKindServer]
                @ (if attrs = [] then [] else [trace_WithAttributes attrs])"
    using middleware_fields [OF c2 assms(3), of sc g0 "next" g w] newConfig_Inr [OF c2, of g0] a2
    by (auto simp add: startOpts_eq withDefaults_attributes)
next
  assume "list_all (keeps field) later"
  then show "\<exists>c1 c2. applyOptions before emptyConfig = Inr c1
               \<and> applyOptions (before @ Some f # later) emptyConfig = Inr c2
               \<and> field c2 = field (f c1)"
    using applyOptions_override [OF assms(1)] by blast
qed

theorem WithAttributes_replaces_witness:
  "None \<notin> set [WithAttributes [(''env'', STRING ''prod''), (''team'', STRING ''a'')],
                 WithServiceName ''first'' :: string list TraceOption]
   \<and> list_all (keeps attributes) [WithTracer (Some listTracer)]
   \<and> RequestURI (get ''/x'') = CHR ''/'' # ''x''
   \<and> list_all (keeps serviceName) [WithAttributes [] :: string list TraceOption]
   \<and> (\<exists>cfg mw sp. newConfig listOtel
            [WithAttributes [(''env'', STRING ''prod''), (''team'', STRING ''a'')],
             WithServiceName ''first'', WithAttributes [(''region'', STRING ''eu'')],
             WithTracer (Some listTracer)] = Inr cfg
         \<and> attributes cfg = [(''region'', STRING ''eu'')]
         \<and> TraceWithOptions listSemconv listOtel
            [WithAttributes [(''env'', STRING ''prod''), (''team'', STRING ''a'')],
             WithServiceName ''first'', WithAttributes [(''region'', STRING ''eu'')],
             WithTracer (Some listTracer)] = Inr mw
         \<and> started (mw (writes 200) listOtel () (get ''/x'')) = Some sp
         \<and> startOptions sp =
             [trace_WithAttributes [(''net.transport'', STRING ''tcp'')],
              trace_WithAttributes [],
              trace_WithAttributes [(''http.server_name'', STRING ''example.com''),
                                    (''http.route'', STRING ''x'')],
              trace_WithAttributes [(''http.method'', STRING ''GET'')],
              trace_WithAttributes [(''telemetry.sdk.language'', STRING ''go'')],
              trace_WithSpanKind SpanKindServer,
              trace_WithAttributes [(''region'', STRING ''eu'')]])
   \<and> (\<exists>c2. applyOptions
            [WithAttributes [(''env'', STRING ''prod''), (''team'', STRING ''a'')],
             WithServiceName ''first'', WithServiceName ''second'', WithAttributes []]
            (emptyConfig :: string list traceConfig) = Inr c2
         \<and> serviceName c2 = ''second'')"
  using WithAttributes_replaces
    [where before = "[WithAttributes [(''env'', STRING ''prod''), (''team'', STRING ''a'')],
                      WithServiceName ''first'']"
      and after = "[WithTracer (Some listTracer)]" and r = "get ''/x''" and c = "CHR ''/''"
      and route = "''x''" and field = serviceName and later = "[WithAttributes []]"
      and ?g0.0 = listOtel and attrs = "[(''region'', STRING ''eu'')]" and sc = listSemconv
      and ?next = "writes 200" and g = listOtel and w = "()"
      and f = "\<lambda>c. c\<lparr>serviceName := ''second''\<rparr>"]
  by (simp add: TraceWithOptions_def newConfig_def withDefaults_def emptyConfig_def fn_def
      extractRoute_def Start_def nameSpan_def startOpts_def keeps_def
      NewWrapResponseWriter_def WithServiceName_def WithTracer_def WithAttributes_def
      get_def writes_def listOtel_def listTracer_def listSemconv_def tagPropagator_def Let_def)


section \<open>The service name\<close>

lemma fn_serviceName:
  "fn sc (config\<lparr>serviceName := n\<rparr>) =
     (fn sc config :: ('ctx, 'w) Handler \<Rightarrow> 'ctx otel \<Rightarrow> 'w \<Rightarrow> 'ctx Request \<Rightarrow> ('ctx, 'w) outcome)"
proof (intro ext)
  fix nxt :: "('ctx, 'w) Handler" and g :: "'ctx otel" and w :: 'w and r :: "'ctx Request"
  show "fn sc (config\<lparr>serviceName := n\<rparr>) nxt g w r = fn sc config nxt g w r"
  proof (cases "propagator config")
    case None
    then show ?thesis by (simp add: fn_no_propagator)
  next
    case p: (Some p)
    show ?thesis
    proof (cases "RequestURI r")
      case Nil
      with p show ?thesis by (simp add: fn_empty_uri)
    next
      case (Cons c rest)
      show ?thesis
      proof (cases "tracer config")
        case None
        with p Cons show ?thesis by (simp add: fn_no_tracer)
      next
        case (Some t)
        have "startOpts sc (config\<lparr>serviceName := n\<rparr>) r rest = startOpts sc config r rest"
          by (simp add: startOpts_eq)
        with p Some Cons show ?thesis
          by (simp add: fn_run [where p = p and t = t and c = c and rest = rest])
      qed
    qed
  qed
qed

lemma fn_same_but_name:
  assumes "c\<lparr>serviceName := []\<rparr> = c'\<lparr>serviceName := []\<rparr>"
  shows "fn sc c = fn sc c'"
  by (metis assms fn_serviceName)

lemma same_but_name_iff:
  fixes c c' :: "'ctx traceConfig"
  shows "c\<lparr>serviceName := []\<rparr> = c'\<lparr>serviceName := []\<rparr> \<longleftrightarrow>
     tracer c = tracer c' \<and> propagator c = propagator c' \<and> attributes c = attributes c'"
  by (cases c, cases c') simp

lemma withDefaults_same_but_name:
  fixes c c' :: "'ctx traceConfig"
  assumes "c\<lparr>serviceName := []\<rparr> = c'\<lparr>serviceName := []\<rparr>"
  shows "(withDefaults g c)\<lparr>serviceName := []\<rparr> = (withDefaults g c')\<lparr>serviceName := []\<rparr>"
  using assms
  by (simp add: same_but_name_iff withDefaults_tracer withDefaults_propagator
      withDefaults_attributes)

lemma applyOptions_ignoresServiceName:
  fixes c c' :: "'ctx traceConfig"
  assumes "list_all ignoresServiceName opt"
    and "c\<lparr>serviceName := []\<rparr> = c'\<lparr>serviceName := []\<rparr>"
  shows "\<exists>d d'. applyOptions opt c = Inr d \<and> applyOptions opt c' = Inr d'
     \<and> d\<lparr>serviceName := []\<rparr> = d'\<lparr>serviceName := []\<rparr>"
  using assms
proof (induction opt arbitrary: c c')
  case Nil
  then show ?case by simp
next
  case (Cons x opt)
  from Cons.prems(1) obtain f where x: "x = Some f"
    and f: "\<And>c n. (f (c\<lparr>serviceName := n\<rparr>))\<lparr>serviceName := []\<rparr> = (f c)\<lparr>serviceName := []\<rparr>"
    by (cases x) (simp_all add: ignoresServiceName_def)
  have "(f c)\<lparr>serviceName := []\<rparr> = (f (c\<lparr>serviceName := []\<rparr>))\<lparr>serviceName := []\<rparr>"
    by (simp add: f)
  also have "\<dots> = (f (c'\<lparr>serviceName := []\<rparr>))\<lparr>serviceName := []\<rparr>"
    by (simp add: Cons.prems(2))
  also have "\<dots> = (f c')\<lparr>serviceName := []\<rparr>"
    by (simp add: f)
  finally have "(f c)\<lparr>serviceName := []\<rparr> = (f c')\<lparr>serviceName := []\<rparr>" .
  moreover from Cons.prems(1) have "list_all ignoresServiceName opt"
    by simp
  ultimately show ?case
    using Cons.IH [of "f c" "f c'"] x by simp
qed

text \<open>
  C7. The service name is stored and never reaches a span. With \<open>WithServiceName\<close>
  among the options or taken out of them, \<open>TraceWithOptions\<close> returns the same
  middleware, so the same spans with the same attributes, when the options after it
  ignore the service name, as the four options of the package do. When those options
  keep the service name, the configuration holds the given name, or \<open>TracedApplication\<close>
  for the empty one.
\<close>

theorem serviceName_not_attached:
  assumes "None \<notin> set before" and "list_all ignoresServiceName after"
  shows "(\<exists>mw :: ('ctx, 'w) Handler \<Rightarrow> 'ctx otel \<Rightarrow> 'w \<Rightarrow> 'ctx Request \<Rightarrow> ('ctx, 'w) outcome.
            TraceWithOptions sc g0 (before @ WithServiceName name # after) = Inr mw
            \<and> TraceWithOptions sc g0 (before @ after) = Inr mw)
       \<and> (list_all (keeps serviceName) after \<longrightarrow>
            (\<exists>cfg. newConfig g0 (before @ WithServiceName name # after) = Inr cfg
               \<and> serviceName cfg = (if name = [] then ''TracedApplication'' else name)))"
proof (intro conjI impI)
  obtain c1 :: "'ctx traceConfig" where c1: "applyOptions before emptyConfig = Inr c1"
    using assms(1) applyOptions_total by blast
  obtain d d' where d: "applyOptions after (c1\<lparr>serviceName := name\<rparr>) = Inr d"
    and d': "applyOptions after c1 = Inr d'"
    and dd: "d\<lparr>serviceName := []\<rparr> = d'\<lparr>serviceName := []\<rparr>"
    using applyOptions_ignoresServiceName [OF assms(2), of "c1\<lparr>serviceName := name\<rparr>" c1]
    by auto
  have a: "applyOptions (before @ WithServiceName name # after) emptyConfig = Inr d"
    using c1 d by (simp add: applyOptions_append WithServiceName_def)
  have b: "applyOptions (before @ after) emptyConfig = Inr d'"
    using c1 d' by (simp add: applyOptions_append)
  have "fn sc (withDefaults g0 d) =
      (fn sc (withDefaults g0 d') ::
        ('ctx, 'w) Handler \<Rightarrow> 'ctx otel \<Rightarrow> 'w \<Rightarrow> 'ctx Request \<Rightarrow> ('ctx, 'w) outcome)"
    using dd by (intro fn_same_but_name withDefaults_same_but_name)
  then show "\<exists>mw :: ('ctx, 'w) Handler \<Rightarrow> 'ctx otel \<Rightarrow> 'w \<Rightarrow> 'ctx Request \<Rightarrow> ('ctx, 'w) outcome.
            TraceWithOptions sc g0 (before @ WithServiceName name # after) = Inr mw
            \<and> TraceWithOptions sc g0 (before @ after) = Inr mw"
    by (simp add: TraceWithOptions_Inr [OF a] TraceWithOptions_Inr [OF b])
next
  assume "list_all (keeps serviceName) after"
  then obtain c2 :: "'ctx traceConfig"
    where c2: "applyOptions (before @ WithServiceName name # after) emptyConfig = Inr c2"
      and n2: "serviceName c2 = name"
    using applyOptions_override [OF assms(1), of serviceName after emptyConfig
        "\<lambda>c. c\<lparr>serviceName := name\<rparr>"]
    by (auto simp add: WithServiceName_def)
  show "\<exists>cfg. newConfig g0 (before @ WithServiceName name # after) = Inr cfg
               \<and> serviceName cfg = (if name = [] then ''TracedApplication'' else name)"
    using newConfig_Inr [OF c2, of g0] n2 by (simp add: withDefaults_serviceName)
qed

theorem serviceName_not_attached_witness:
  "None \<notin> set [WithAttributes [(''env'', STRING ''prod'')] :: string list TraceOption]
   \<and> list_all ignoresServiceName [WithPropagator (Some (tagPropagator ''custom''))]
   \<and> list_all (keeps serviceName) [WithPropagator (Some (tagPropagator ''custom''))]
   \<and> (\<exists>mw :: (string list, unit) Handler \<Rightarrow> string list otel \<Rightarrow> unit \<Rightarrow> string list Request
                 \<Rightarrow> (string list, unit) outcome.
         TraceWithOptions listSemconv listOtel
           [WithAttributes [(''env'', STRING ''prod'')], WithServiceName ''svc'',
            WithPropagator (Some (tagPropagator ''custom''))] = Inr mw
         \<and> TraceWithOptions listSemconv listOtel
           [WithAttributes [(''env'', STRING ''prod'')],
            WithPropagator (Some (tagPropagator ''custom''))] = Inr mw)
   \<and> (\<exists>cfg. newConfig listOtel
           [WithAttributes [(''env'', STRING ''prod'')], WithServiceName ''svc'',
            WithPropagator (Some (tagPropagator ''custom''))] = Inr cfg
         \<and> serviceName cfg = ''svc'')
   \<and> (\<exists>mw sp. TraceWithOptions listSemconv listOtel
           [WithAttributes [(''env'', STRING ''prod'')], WithServiceName ''svc'',
            WithPropagator (Some (tagPropagator ''custom''))] = Inr mw
         \<and> started (mw (writes 200) listOtel () (get ''/x'')) = Some sp
         \<and> startOptions sp =
             [trace_WithAttributes [(''net.transport'', STRING ''tcp'')],
              trace_WithAttributes [],
              trace_WithAttributes [(''http.server_name'', STRING ''example.com''),
                                    (''http.route'', STRING ''x'')],
              trace_WithAttributes [(''http.method'', STRING ''GET'')],
              trace_WithAttributes [(''telemetry.sdk.language'', STRING ''go'')],
              trace_WithSpanKind SpanKindServer,
              trace_WithAttributes [(''env'', STRING ''prod'')]])"
proof -
  have h1: "None \<notin> set [WithAttributes [(''env'', STRING ''prod'')] :: string list TraceOption]"
    by (simp add: WithAttributes_def)
  have h2: "list_all ignoresServiceName [WithPropagator (Some (tagPropagator ''custom''))]"
    by (simp add: ignoresServiceName_def WithPropagator_def)
  have h3: "list_all (keeps serviceName) [WithPropagator (Some (tagPropagator ''custom''))]"
    by (simp add: keeps_def WithPropagator_def)
  have run: "\<exists>mw sp. TraceWithOptions listSemconv listOtel
           [WithAttributes [(''env'', STRING ''prod'')], WithServiceName ''svc'',
            WithPropagator (Some (tagPropagator ''custom''))] = Inr mw
         \<and> started (mw (writes 200) listOtel () (get ''/x'')) = Some sp
         \<and> startOptions sp =
             [trace_WithAttributes [(''net.transport'', STRING ''tcp'')],
              trace_WithAttributes [],
              trace_WithAttributes [(''http.server_name'', STRING ''example.com''),
                                    (''http.route'', STRING ''x'')],
              trace_WithAttributes [(''http.method'', STRING ''GET'')],
              trace_WithAttributes [(''telemetry.sdk.language'', STRING ''go'')],
              trace_WithSpanKind SpanKindServer,
              trace_WithAttributes [(''env'', STRING ''prod'')]]"
    by (simp add: TraceWithOptions_def newConfig_def withDefaults_def emptyConfig_def fn_def
        extractRoute_def Start_def nameSpan_def startOpts_def
        NewWrapResponseWriter_def WithServiceName_def WithPropagator_def WithAttributes_def
        get_def writes_def listOtel_def listTracer_def listSemconv_def tagPropagator_def Let_def)
  show ?thesis
    using serviceName_not_attached [OF h1 h2, of listSemconv listOtel "''svc''"] h1 h2 h3 run
    by simp
qed


end
